theory Spec2Isabelle
  imports Main
begin

section \<open>Python values as the orchestrator sees them\<close>

text \<open>
  \<^verbatim>\<open>orchestrator.py\<close> receives responses of type \<^verbatim>\<open>Any\<close> and probes them with
  \<^verbatim>\<open>hasattr\<close>, \<^verbatim>\<open>getattr\<close>, \<^verbatim>\<open>isinstance\<close>, truth tests, iteration and \<^verbatim>\<open>str\<close>.
  The values are modelled by a datatype that supports exactly these probes.  Text is a
  \<open>string\<close> whose characters are the code points below 256.

  A raised exception is a value: \<open>TypeError\<close> stands for \<^verbatim>\<open>TypeError\<close> and its subclasses
  (what \<^verbatim>\<open>except TypeError\<close> catches), \<open>OtherError name\<close> for any other exception.
\<close>

datatype exn = TypeError | OtherError string

text \<open>
  \<open>PyObj attrs s r\<close> is an instance of a user class with plain instance attributes
  \<open>attrs\<close> (an association list, first binding wins), no \<^verbatim>\<open>__bool__\<close>, \<^verbatim>\<open>__len__\<close> or
  \<^verbatim>\<open>__iter__\<close>; \<open>s\<close> is the outcome of its \<^verbatim>\<open>__str__\<close> and \<open>r\<close> the outcome of its
  \<^verbatim>\<open>__repr__\<close> (a text, or the exception the method raises).
\<close>

datatype pyval =
    PyNone
  | PyBool bool
  | PyInt int
  | PyStr string
  | PyList "pyval list"
  | PyObj "(string \<times> pyval) list" "exn + string" "exn + string"

subsection \<open>Truth value, attributes, iteration\<close>

fun py_truthy :: "pyval \<Rightarrow> bool" where
  "py_truthy PyNone = False"
| "py_truthy (PyBool b) = b"
| "py_truthy (PyInt i) = (i \<noteq> 0)"
| "py_truthy (PyStr s) = (s \<noteq> [])"
| "py_truthy (PyList xs) = (xs \<noteq> [])"
| "py_truthy (PyObj attrs s r) = True"

text \<open>
  The bound method \<^verbatim>\<open>str.title\<close>: the only attribute among the names this program probes
  (\<^verbatim>\<open>text\<close>, \<^verbatim>\<open>content\<close>, \<^verbatim>\<open>citations\<close>, \<^verbatim>\<open>context\<close>, \<^verbatim>\<open>grounding_data\<close>, \<^verbatim>\<open>title\<close>,
  \<^verbatim>\<open>filepath\<close>, \<^verbatim>\<open>url\<close>, \<^verbatim>\<open>chunk_id\<close>, \<^verbatim>\<open>source\<close>) that a built-in value carries.  It is
  an object without attributes of interest; its printed form in Python also holds a memory
  address, which is left out here.
\<close>

definition str_title_method :: pyval where
  "str_title_method =
     PyObj [] (Inr ''<built-in method title of str object>'')
              (Inr ''<built-in method title of str object>'')"

text \<open>
  \<open>py_getattr v name\<close> is \<open>None\<close> where \<^verbatim>\<open>hasattr(v, name)\<close> is false and \<open>Some\<close> of
  \<^verbatim>\<open>getattr(v, name)\<close> otherwise, for the attribute names listed above.
\<close>

fun py_getattr :: "pyval \<Rightarrow> string \<Rightarrow> pyval option" where
  "py_getattr (PyObj attrs s r) name = map_of attrs name"
| "py_getattr (PyStr t) name = (if name = ''title'' then Some str_title_method else None)"
| "py_getattr v name = None"

definition py_hasattr :: "pyval \<Rightarrow> string \<Rightarrow> bool" where
  "py_hasattr v name = (py_getattr v name \<noteq> None)"

text \<open>\<^verbatim>\<open>getattr(v, name, default)\<close>.\<close>

definition py_getattr_default :: "pyval \<Rightarrow> string \<Rightarrow> pyval \<Rightarrow> pyval" where
  "py_getattr_default v name d = (case py_getattr v name of Some x \<Rightarrow> x | None \<Rightarrow> d)"

text \<open>
  \<^verbatim>\<open>for x in v\<close>: a list yields its elements, a string its one-character strings; the
  other values are not iterable and the loop header raises \<^verbatim>\<open>TypeError\<close>.
\<close>

fun py_iter :: "pyval \<Rightarrow> exn + pyval list" where
  "py_iter (PyList xs) = Inr xs"
| "py_iter (PyStr s) = Inr (map (\<lambda>c. PyStr [c]) s)"
| "py_iter v = Inl TypeError"

subsection \<open>The built-in \<^verbatim>\<open>str\<close> and \<^verbatim>\<open>repr\<close>\<close>

fun nat_repr :: "nat \<Rightarrow> string" where
  "nat_repr n =
     (if n < 10 then [char_of (48 + n)]
      else nat_repr (n div 10) @ [char_of (48 + n mod 10)])"

declare nat_repr.simps [simp del]

definition int_repr :: "int \<Rightarrow> string" where
  "int_repr i = (if i < 0 then CHR ''-'' # nat_repr (nat (- i)) else nat_repr (nat i))"

definition hex_digit :: "nat \<Rightarrow> char" where
  "hex_digit d = (if d < 10 then char_of (48 + d) else char_of (87 + d))"

text \<open>
  One character inside the quotes \<open>q\<close> of a string's \<^verbatim>\<open>repr\<close>: the quote and the backslash
  are escaped, tab, newline and carriage return have their letters, the other characters
  that are not printable (controls, DEL, 0x80 to 0xA0, 0xAD) are written \<^verbatim>\<open>\xNN\<close>.
\<close>

definition repr_char :: "char \<Rightarrow> char \<Rightarrow> string" where
  "repr_char q c =
     (let n = (of_char c :: nat) in
      if c = q \<or> n = 92 then [CHR 0x5C, c]
      else if n = 9 then [CHR 0x5C, CHR ''t'']
      else if n = 10 then [CHR 0x5C, CHR ''n'']
      else if n = 13 then [CHR 0x5C, CHR ''r'']
      else if n < 32 \<or> n = 127 \<or> (128 \<le> n \<and> n \<le> 160) \<or> n = 173
        then [CHR 0x5C, CHR ''x'', hex_digit (n div 16), hex_digit (n mod 16)]
      else [c])"

definition str_repr :: "string \<Rightarrow> string" where
  "str_repr s =
     (let q = (if CHR 0x27 \<in> set s \<and> CHR 0x22 \<notin> set s then CHR 0x22 else CHR 0x27)
      in q # concat (map (repr_char q) s) @ [q])"

text \<open>
  CPython refuses to print an integer of more than 4300 decimal digits (the default
  of \<^verbatim>\<open>sys.int_max_str_digits\<close>) and raises \<^verbatim>\<open>ValueError\<close>.
\<close>

text \<open>The texts of a list's elements in order, or the first exception among them.\<close>

fun collect :: "(exn + string) list \<Rightarrow> exn + string list" where
  "collect [] = Inr []"
| "collect (Inl e # rs) = Inl e"
| "collect (Inr t # rs) = (case collect rs of Inl e \<Rightarrow> Inl e | Inr ts \<Rightarrow> Inr (t # ts))"

fun join_comma :: "string list \<Rightarrow> string" where
  "join_comma [] = []"
| "join_comma [t] = t"
| "join_comma (t # ts) = t @ '', '' @ join_comma ts"

fun py_repr :: "pyval \<Rightarrow> exn + string" where
  "py_repr PyNone = Inr ''None''"
| "py_repr (PyBool b) = Inr (if b then ''True'' else ''False'')"
| "py_repr (PyInt i) =
     (if 4300 < length (nat_repr (nat \<bar>i\<bar>)) then Inl (OtherError ''ValueError'')
      else Inr (int_repr i))"
| "py_repr (PyStr s) = Inr (str_repr s)"
| "py_repr (PyList xs) =
     (case collect (map py_repr xs) of
        Inl e \<Rightarrow> Inl e
      | Inr ts \<Rightarrow> Inr (''['' @ join_comma ts @ '']''))"
| "py_repr (PyObj attrs s r) = r"

text \<open>\<^verbatim>\<open>str(v)\<close>: the string itself, an object's \<^verbatim>\<open>__str__\<close>, otherwise the \<^verbatim>\<open>repr\<close>.\<close>

fun py_str :: "pyval \<Rightarrow> exn + string" where
  "py_str (PyStr s) = Inr s"
| "py_str (PyObj attrs s r) = s"
| "py_str v = py_repr v"

section \<open>Compatibility helpers\<close>

text \<open>
  \<^verbatim>\<open>extract_text\<close> (lines 78 to 97).  The function has no handler of its own, so an
  exception of \<^verbatim>\<open>str\<close> leaves it.
\<close>

definition extract_text :: "pyval \<Rightarrow> exn + string" where
  "extract_text response =
     (if response = PyNone then Inr ''''
      else
        (case py_getattr response ''text'' of
           Some (PyStr t) \<Rightarrow> Inr t
         | _ \<Rightarrow>
            (case py_getattr response ''content'' of
               Some content \<Rightarrow>
                 (case content of PyStr t \<Rightarrow> Inr t | _ \<Rightarrow> py_str content)
             | None \<Rightarrow> py_str response)))"







text \<open>
  The constructors \<^verbatim>\<open>Content\<close> and \<^verbatim>\<open>Message\<close> belong to the imported package
  \<^verbatim>\<open>agent_framework\<close>; they are parameters of the model.  Each returns the value built or
  the exception raised.  \<open>'c\<close> is the type of content values, \<open>'m\<close> of messages.
\<close>

record ('c, 'm) sdk =
  Content_text :: "string \<Rightarrow> exn + 'c"
  Message_content :: "string \<Rightarrow> 'c list \<Rightarrow> exn + 'm"
  Message_text :: "string \<Rightarrow> string \<Rightarrow> exn + 'm"

text \<open>\<^verbatim>\<open>make_user_message\<close> (lines 62 to 75).\<close>

definition make_user_message :: "('c, 'm) sdk \<Rightarrow> string \<Rightarrow> exn + 'm" where
  "make_user_message sdk text =
     (case (case Content_text sdk text of
              Inl e \<Rightarrow> Inl e
            | Inr c \<Rightarrow> Message_content sdk ''user'' [c]) of
        Inl TypeError \<Rightarrow> Message_text sdk ''user'' text
      | r \<Rightarrow> r)"

text \<open>
  An agent's \<^verbatim>\<open>run\<close> is a remote call: it takes its argument (one message, or a list of
  messages) and the state \<open>'s\<close> of the world outside the program, and gives the response
  or the exception together with the state after the call.
\<close>

datatype 'm run_arg = OneMessage 'm | MessageList "'m list"

type_synonym ('m, 's) agent = "'m run_arg \<Rightarrow> 's \<Rightarrow> (exn + pyval) \<times> 's"

text \<open>\<^verbatim>\<open>run_agent\<close> (lines 100 to 112).\<close>

definition run_agent ::
  "('c, 'm) sdk \<Rightarrow> ('m, 's) agent \<Rightarrow> string \<Rightarrow> 's \<Rightarrow> (exn + pyval) \<times> 's" where
  "run_agent sdk agent text s =
     (case make_user_message sdk text of
        Inl e \<Rightarrow> (Inl e, s)
      | Inr msg \<Rightarrow>
         (case agent (OneMessage msg) s of
            (Inl TypeError, s1) \<Rightarrow> agent (MessageList [msg]) s1
          | r \<Rightarrow> r))"

section \<open>Routing\<close>

text \<open>
  \<^verbatim>\<open>str.strip()\<close> and \<^verbatim>\<open>str.lower()\<close> on code points below 256: the white space is
  0x09 to 0x0D, 0x1C to 0x20, 0x85 and 0xA0; the letters with a lower-case form are
  A to Z and 0xC0 to 0xDE without 0xD7.
\<close>

definition py_isspace :: "char \<Rightarrow> bool" where
  "py_isspace c =
     (let n = (of_char c :: nat) in
      (9 \<le> n \<and> n \<le> 13) \<or> (28 \<le> n \<and> n \<le> 32) \<or> n = 133 \<or> n = 160)"

definition py_strip :: "string \<Rightarrow> string" where
  "py_strip s = rev (dropWhile py_isspace (rev (dropWhile py_isspace s)))"

definition lower_char :: "char \<Rightarrow> char" where
  "lower_char c =
     (let n = (of_char c :: nat) in
      if (65 \<le> n \<and> n \<le> 90) \<or> (192 \<le> n \<and> n \<le> 222 \<and> n \<noteq> 215)
      then char_of (n + 32) else c)"

definition py_lower :: "string \<Rightarrow> string" where
  "py_lower s = map lower_char s"

text \<open>\<^verbatim>\<open>sub in text\<close> on strings: \<open>sub\<close> starts at some position of \<open>text\<close>.\<close>

fun starts_with :: "string \<Rightarrow> string \<Rightarrow> bool" where
  "starts_with [] text = True"
| "starts_with (p # ps) [] = False"
| "starts_with (p # ps) (c # cs) = (p = c \<and> starts_with ps cs)"

fun py_in :: "string \<Rightarrow> string \<Rightarrow> bool" where
  "py_in sub [] = (sub = [])"
| "py_in sub (c # cs) = (starts_with sub (c # cs) \<or> py_in sub cs)"

text \<open>\<^verbatim>\<open>route_query\<close> (lines 118 to 130).\<close>

definition route_query ::
  "('c, 'm) sdk \<Rightarrow> ('m, 's) agent \<Rightarrow> string \<Rightarrow> 's \<Rightarrow> (exn + string) \<times> 's" where
  "route_query sdk router query s =
     (case run_agent sdk router query s of
        (Inl e, s1) \<Rightarrow> (Inl e, s1)
      | (Inr response, s1) \<Rightarrow>
         (case extract_text response of
            Inl e \<Rightarrow> (Inl e, s1)
          | Inr t \<Rightarrow>
             (let route = py_lower (py_strip t) in
              if py_in ''hr'' route then (Inr ''hr'', s1)
              else if py_in ''marketing'' route \<or> py_in ''brand'' route
                      \<or> py_in ''campaign'' route then (Inr ''marketing'', s1)
              else if py_in ''product'' route then (Inr ''products'', s1)
              else (Inr ''hr'', s1))))"

section \<open>Single-query helper\<close>

text \<open>
  A source record is a \<^verbatim>\<open>dict\<close> from field names to values, kept in insertion order.
  \<open>dict_set d k v\<close> is \<^verbatim>\<open>d[k] = v\<close>; \<open>dict_get d k\<close> is \<open>None\<close> where the key is missing.
\<close>

type_synonym source_info = "(string \<times> pyval) list"

fun dict_set :: "source_info \<Rightarrow> string \<Rightarrow> pyval \<Rightarrow> source_info" where
  "dict_set [] k v = [(k, v)]"
| "dict_set ((k', v') # d) k v =
     (if k' = k then (k, v) # d else (k', v') # dict_set d k v)"

definition dict_get :: "source_info \<Rightarrow> string \<Rightarrow> pyval option" where
  "dict_get d k = map_of d k"

text \<open>\<^verbatim>\<open>kb_map\<close> (lines 224 to 228) and \<^verbatim>\<open>kb_map.get(route, "unknown")\<close> (line 278).\<close>

definition kb_map :: "(string \<times> string) list" where
  "kb_map = [(''hr'', ''kb1-hr''), (''marketing'', ''kb2-marketing''),
             (''products'', ''kb3-products'')]"

definition kb_name_of :: "string \<Rightarrow> string" where
  "kb_name_of route = (case map_of kb_map route of Some kb \<Rightarrow> kb | None \<Rightarrow> ''unknown'')"

text \<open>
  The bodies of the three loops (lines 283 to 291, 298 to 302, 309 to 313): the record
  built for one entry.  An attribute is read (\<^verbatim>\<open>c.title\<close>) only under the test that
  found it, so the read is the value the test saw.
\<close>

definition citation_info :: "string \<Rightarrow> pyval \<Rightarrow> source_info" where
  "citation_info kb_name c =
     (let source_info = [(''kb'', PyStr kb_name)];
          source_info =
            (if py_truthy (py_getattr_default c ''title'' PyNone)
             then dict_set source_info ''title'' (py_getattr_default c ''title'' PyNone)
             else source_info);
          source_info =
            (if py_truthy (py_getattr_default c ''filepath'' PyNone)
             then dict_set source_info ''filepath'' (py_getattr_default c ''filepath'' PyNone)
             else source_info);
          source_info =
            (if py_truthy (py_getattr_default c ''url'' PyNone)
             then dict_set source_info ''url'' (py_getattr_default c ''url'' PyNone)
             else source_info);
          source_info =
            (if py_truthy (py_getattr_default c ''chunk_id'' PyNone)
             then dict_set source_info ''chunk_id'' (py_getattr_default c ''chunk_id'' PyNone)
             else source_info)
      in source_info)"

definition context_info :: "string \<Rightarrow> pyval \<Rightarrow> source_info" where
  "context_info kb_name ctx =
     (let source_info = [(''kb'', PyStr kb_name)];
          source_info =
            (if py_truthy (py_getattr_default ctx ''title'' PyNone)
             then dict_set source_info ''title'' (py_getattr_default ctx ''title'' PyNone)
             else source_info);
          source_info =
            (if py_truthy (py_getattr_default ctx ''source'' PyNone)
             then dict_set source_info ''filepath'' (py_getattr_default ctx ''source'' PyNone)
             else source_info)
      in source_info)"

definition grounding_info :: "string \<Rightarrow> pyval \<Rightarrow> source_info" where
  "grounding_info kb_name gd =
     (let source_info = [(''kb'', PyStr kb_name)];
          source_info =
            (if py_truthy (py_getattr_default gd ''title'' PyNone)
             then dict_set source_info ''title'' (py_getattr_default gd ''title'' PyNone)
             else source_info);
          source_info =
            (if py_truthy (py_getattr_default gd ''filepath'' PyNone)
             then dict_set source_info ''filepath'' (py_getattr_default gd ''filepath'' PyNone)
             else source_info)
      in source_info)"

text \<open>
  The loop shared by the three blocks: for each entry, build its record with \<open>info\<close> and
  append it to \<open>sources\<close> when it has more than one field (lines 292, 303, 314).
\<close>

fun append_records ::
  "(pyval \<Rightarrow> source_info) \<Rightarrow> pyval list \<Rightarrow> source_info list \<Rightarrow> source_info list" where
  "append_records info [] sources = sources"
| "append_records info (c # cs) sources =
     (let source_info = info c in
      append_records info cs
        (if length source_info > 1 then sources @ [source_info] else sources))"

text \<open>The citations block (lines 281 to 293).\<close>

definition citations_block :: "string \<Rightarrow> pyval \<Rightarrow> source_info list \<Rightarrow> exn + source_info list" where
  "citations_block kb_name response sources =
     (if py_hasattr response ''citations''
         \<and> py_truthy (py_getattr_default response ''citations'' PyNone)
      then (case py_iter (py_getattr_default response ''citations'' PyNone) of
              Inl e \<Rightarrow> Inl e
            | Inr cs \<Rightarrow> Inr (append_records (citation_info kb_name) cs sources))
      else Inr sources)"

text \<open>The context block (lines 296 to 304).\<close>

definition context_block :: "string \<Rightarrow> pyval \<Rightarrow> source_info list \<Rightarrow> exn + source_info list" where
  "context_block kb_name response sources =
     (if sources = [] \<and> py_hasattr response ''context''
         \<and> py_truthy (py_getattr_default response ''context'' PyNone)
      then (case py_iter (py_getattr_default response ''context'' PyNone) of
              Inl e \<Rightarrow> Inl e
            | Inr cs \<Rightarrow> Inr (append_records (context_info kb_name) cs sources))
      else Inr sources)"

text \<open>The grounding-data block (lines 307 to 315).\<close>

definition grounding_block :: "string \<Rightarrow> pyval \<Rightarrow> source_info list \<Rightarrow> exn + source_info list" where
  "grounding_block kb_name response sources =
     (if sources = [] \<and> py_hasattr response ''grounding_data''
         \<and> py_truthy (py_getattr_default response ''grounding_data'' PyNone)
      then (case py_iter (py_getattr_default response ''grounding_data'' PyNone) of
              Inl e \<Rightarrow> Inl e
            | Inr cs \<Rightarrow> Inr (append_records (grounding_info kb_name) cs sources))
      else Inr sources)"

text \<open>The table \<^verbatim>\<open>default_docs\<close> (lines 319 to 333); \<open>doc\<close> is one of its dict literals.\<close>

definition doc :: "string \<Rightarrow> string \<Rightarrow> string \<Rightarrow> source_info" where
  "doc kb_name title filepath =
     [(''kb'', PyStr kb_name), (''title'', PyStr title), (''filepath'', PyStr filepath)]"

definition default_docs :: "string \<Rightarrow> (string \<times> source_info list) list" where
  "default_docs kb_name =
     [(''hr'',
        [doc kb_name ''Employee_Handbook.pdf'' ''hr-policies/Employee_Handbook.pdf'',
         doc kb_name ''PTO_Policy_2024.docx'' ''hr-policies/PTO_Policy_2024.docx'',
         doc kb_name ''Benefits_Guide.pdf'' ''hr-policies/Benefits_Guide.pdf'']),
      (''marketing'',
        [doc kb_name ''Brand_Guidelines.pdf'' ''marketing/Brand_Guidelines.pdf'',
         doc kb_name ''Campaign_Playbook.pptx'' ''marketing/Campaign_Playbook.pptx'']),
      (''products'',
        [doc kb_name ''Product_Catalog_2024.xlsx'' ''products/Product_Catalog_2024.xlsx'',
         doc kb_name ''Specifications.pdf'' ''products/Specifications.pdf''])]"

text \<open>The fallback block (lines 318 to 334).\<close>

definition fallback_block :: "string \<Rightarrow> string \<Rightarrow> source_info list \<Rightarrow> source_info list" where
  "fallback_block route kb_name sources =
     (if sources = []
      then (case map_of (default_docs kb_name) route of
              Some docs \<Rightarrow> docs
            | None \<Rightarrow> [doc kb_name ''Knowledge Base'' kb_name])
      else sources)"

text \<open>
  Lines 277 to 334 of \<^verbatim>\<open>run_single_query\<close>: the sources computed from the route and the
  specialist's response.
\<close>

definition extract_sources :: "string \<Rightarrow> pyval \<Rightarrow> exn + source_info list" where
  "extract_sources route response =
     (let sources = [];
          kb_name = kb_name_of route
      in case citations_block kb_name response sources of
           Inl e \<Rightarrow> Inl e
         | Inr sources \<Rightarrow>
            (case context_block kb_name response sources of
               Inl e \<Rightarrow> Inl e
             | Inr sources \<Rightarrow>
                (case grounding_block kb_name response sources of
                   Inl e \<Rightarrow> Inl e
                 | Inr sources \<Rightarrow> Inr (fallback_block route kb_name sources))))"

text \<open>
  \<^verbatim>\<open>run_single_query\<close> (lines 218 to 336).  The credential, the client and the search
  providers are set up by the imported packages; the router and the three specialists
  built on them are parameters.  \<^verbatim>\<open>specialists[route]\<close> raises \<^verbatim>\<open>KeyError\<close> on a
  missing key.
\<close>

definition specialists ::
  "('m, 's) agent \<Rightarrow> ('m, 's) agent \<Rightarrow> ('m, 's) agent \<Rightarrow> (string \<times> ('m, 's) agent) list" where
  "specialists hr_agent marketing_agent products_agent =
     [(''hr'', hr_agent), (''marketing'', marketing_agent), (''products'', products_agent)]"

definition run_single_query ::
  "('c, 'm) sdk \<Rightarrow> ('m, 's) agent \<Rightarrow> ('m, 's) agent \<Rightarrow> ('m, 's) agent \<Rightarrow> ('m, 's) agent
     \<Rightarrow> string \<Rightarrow> 's \<Rightarrow> (exn + string \<times> string \<times> source_info list) \<times> 's" where
  "run_single_query sdk router hr_agent marketing_agent products_agent query s =
     (case route_query sdk router query s of
        (Inl e, s1) \<Rightarrow> (Inl e, s1)
      | (Inr route, s1) \<Rightarrow>
         (case map_of (specialists hr_agent marketing_agent products_agent) route of
            None \<Rightarrow> (Inl (OtherError ''KeyError''), s1)
          | Some specialist \<Rightarrow>
             (case run_agent sdk specialist query s1 of
                (Inl e, s2) \<Rightarrow> (Inl e, s2)
              | (Inr response, s2) \<Rightarrow>
                 (case extract_text response of
                    Inl e \<Rightarrow> (Inl e, s2)
                  | Inr response_text \<Rightarrow>
                     (case extract_sources route response of
                        Inl e \<Rightarrow> (Inl e, s2)
                      | Inr sources \<Rightarrow> (Inr (route, response_text, sources), s2))))))"

section \<open>Sample collaborators\<close>

text \<open>
  Concrete stand-ins for the imported package and for remote agents, used to run the
  model: contents and messages are texts, the state of the world counts the calls made.
\<close>

definition sample_sdk :: "(string, string) sdk" where
  "sample_sdk =
     \<lparr>Content_text = (\<lambda>t. Inr t),
      Message_content = (\<lambda>role cs. Inr (role @ '': '' @ concat cs)),
      Message_text = (\<lambda>role t. Inr (role @ '': '' @ t))\<rparr>"

text \<open>An agent that answers \<open>reply\<close> under both calling conventions.\<close>

definition steady_agent :: "pyval \<Rightarrow> (string, nat) agent" where
  "steady_agent reply arg n = (Inr reply, Suc n)"

text \<open>An agent that accepts a list of messages only.\<close>

definition list_only_agent :: "pyval \<Rightarrow> (string, nat) agent" where
  "list_only_agent reply arg n =
     (case arg of
        OneMessage m \<Rightarrow> (Inl TypeError, Suc n)
      | MessageList ms \<Rightarrow> (Inr reply, Suc n))"

text \<open>An agent whose \<^verbatim>\<open>run\<close> accepts neither convention.\<close>

definition rejecting_agent :: "(string, nat) agent" where
  "rejecting_agent arg n = (Inl TypeError, Suc n)"

text \<open>A response or entry object with the given attributes and a fixed printed form.\<close>

definition obj :: "(string \<times> pyval) list \<Rightarrow> pyval" where
  "obj attrs = PyObj attrs (Inr ''<object>'') (Inr ''<object>'')"


section \<open>Membership test\<close>

lemma starts_with_iff: "starts_with p t \<longleftrightarrow> (\<exists>post. t = p @ post)"
  by (induction p t rule: starts_with.induct) auto

lemma py_in_iff: "py_in sub t \<longleftrightarrow> (\<exists>pre post. t = pre @ sub @ post)"
proof (induction t)
  case Nil
  then show ?case by auto
next
  case (Cons c cs)
  show ?case
  proof
    assume "py_in sub (c # cs)"
    then consider "starts_with sub (c # cs)" | "py_in sub cs" by auto
    then show "\<exists>pre post. c # cs = pre @ sub @ post"
    proof cases
      case 1
      then obtain post where "c # cs = sub @ post" by (auto simp: starts_with_iff)
      then have "c # cs = [] @ sub @ post" by simp
      then show ?thesis by blast
    next
      case 2
      then obtain pre post where "cs = pre @ sub @ post" using Cons.IH by auto
      then have "c # cs = (c # pre) @ sub @ post" by simp
      then show ?thesis by blast
    qed
  next
    assume "\<exists>pre post. c # cs = pre @ sub @ post"
    then obtain pre post where e: "c # cs = pre @ sub @ post" by blast
    show "py_in sub (c # cs)"
    proof (cases pre)
      case Nil
      with e have "starts_with sub (c # cs)" by (auto simp: starts_with_iff)
      then show ?thesis by simp
    next
      case (Cons a pre')
      with e have "cs = pre' @ sub @ post" by simp
      then have "py_in sub cs" using Cons.IH by blast
      then show ?thesis by simp
    qed
  qed
qed

section \<open>Text extraction\<close>

text \<open>
  C7.  For every response that exposes an attribute \<^verbatim>\<open>text\<close> whose value is a string,
  \<^verbatim>\<open>extract_text\<close> returns exactly that string.
\<close>

theorem extract_text_string_text:
  assumes "py_getattr response ''text'' = Some (PyStr t)"
  shows "extract_text response = Inr t"
proof -
  from assms have "response \<noteq> PyNone" by auto
  with assms show ?thesis by (simp add: extract_text_def)
qed

theorem extract_text_string_text_witness:
  "py_getattr (obj [(''text'', PyStr ''Hello HR'')]) ''text'' = Some (PyStr ''Hello HR'')
   \<and> extract_text (obj [(''text'', PyStr ''Hello HR'')]) = Inr ''Hello HR''"
proof -
  have h: "py_getattr (obj [(''text'', PyStr ''Hello HR'')]) ''text'' = Some (PyStr ''Hello HR'')"
    by (simp add: obj_def)
  show ?thesis using h extract_text_string_text [OF h] by simp
qed






section \<open>Message construction and agent invocation\<close>

text \<open>
  C9, as the claim states it, fails: a mismatch of the calling convention can reach the
  caller.  An agent whose \<^verbatim>\<open>run\<close> raises \<^verbatim>\<open>TypeError\<close> for a single message and for a
  list of messages makes \<^verbatim>\<open>run_agent\<close> raise \<^verbatim>\<open>TypeError\<close>, after two calls.
\<close>

theorem run_agent_type_error_surfaces:
  "make_user_message sample_sdk ''When is payday?'' = Inr ''user: When is payday?''
   \<and> rejecting_agent (OneMessage ''user: When is payday?'') 0 = (Inl TypeError, 1)
   \<and> rejecting_agent (MessageList [''user: When is payday?'']) 1 = (Inl TypeError, 2)
   \<and> run_agent sample_sdk rejecting_agent ''When is payday?'' 0 = (Inl TypeError, 2)"
  by (simp add: run_agent_def make_user_message_def sample_sdk_def rejecting_agent_def)

text \<open>
  C9, amended.  \<^verbatim>\<open>run_agent\<close> first calls the agent with the single message.  When that
  call does not raise \<^verbatim>\<open>TypeError\<close>, its outcome is the outcome of \<^verbatim>\<open>run_agent\<close> and no
  second call is made.  Exactly when it raises \<^verbatim>\<open>TypeError\<close>, the agent is called once
  more, with the one-element list, and the outcome of that second call (a response or
  any exception, a further \<^verbatim>\<open>TypeError\<close> included) is the outcome of \<^verbatim>\<open>run_agent\<close>: the
  mismatch of the first convention is not surfaced.  An exception of the message
  construction leaves \<^verbatim>\<open>run_agent\<close> before any call.  \<^verbatim>\<open>make_user_message\<close> follows the
  same pattern: the message with structured content first, and exactly when building it
  raises \<^verbatim>\<open>TypeError\<close>, the message with the plain text field, whose outcome is returned.
\<close>

theorem run_agent_first_then_fallback:
  "(make_user_message sdk text = Inr msg \<and> agent (OneMessage msg) s = (r, s1)
      \<and> r \<noteq> Inl TypeError \<longrightarrow> run_agent sdk agent text s = (r, s1))
   \<and> (make_user_message sdk text = Inr msg \<and> agent (OneMessage msg) s = (Inl TypeError, s1)
      \<longrightarrow> run_agent sdk agent text s = agent (MessageList [msg]) s1)
   \<and> (make_user_message sdk text = Inl e \<longrightarrow> run_agent sdk agent text s = (Inl e, s))
   \<and> (Content_text sdk text = Inr c \<and> Message_content sdk ''user'' [c] = m
      \<and> m \<noteq> Inl TypeError \<longrightarrow> make_user_message sdk text = m)
   \<and> (Content_text sdk text = Inl e \<and> e \<noteq> TypeError \<longrightarrow> make_user_message sdk text = Inl e)
   \<and> (Content_text sdk text = Inl TypeError
        \<or> (Content_text sdk text = Inr c \<and> Message_content sdk ''user'' [c] = Inl TypeError)
      \<longrightarrow> make_user_message sdk text = Message_text sdk ''user'' text)"
  apply (intro conjI impI)
  subgoal by (cases r; auto simp: run_agent_def split: exn.splits)
  subgoal by (simp add: run_agent_def)
  subgoal by (simp add: run_agent_def)
  subgoal by (cases m; auto simp: make_user_message_def split: exn.splits)
  subgoal by (cases e; auto simp: make_user_message_def)
  subgoal by (auto simp: make_user_message_def)
  done

theorem run_agent_first_then_fallback_witness:
  "run_agent sample_sdk (list_only_agent (obj [(''text'', PyStr ''hr'')])) ''When is payday?'' 0
     = (Inr (obj [(''text'', PyStr ''hr'')]), 2)"
proof -
  let ?reply = "obj [(''text'', PyStr ''hr'')]"
  have h: "make_user_message sample_sdk ''When is payday?'' = Inr ''user: When is payday?''
        \<and> list_only_agent ?reply (OneMessage ''user: When is payday?'') 0 = (Inl TypeError, 1)"
    by (simp add: make_user_message_def sample_sdk_def list_only_agent_def)
  from run_agent_first_then_fallback
         [of sample_sdk "''When is payday?''" "''user: When is payday?''"
             "list_only_agent ?reply" 0 _ 1] h
  have "run_agent sample_sdk (list_only_agent ?reply) ''When is payday?'' 0
          = list_only_agent ?reply (MessageList [''user: When is payday?'']) 1"
    by blast
  then show ?thesis by (simp add: list_only_agent_def)
qed

section \<open>Routing rules\<close>

lemma sample_message: "make_user_message sample_sdk text = Inr (''user: '' @ text)"
  by (simp add: make_user_message_def sample_sdk_def)

text \<open>
  C1.  For every response of the router, \<^verbatim>\<open>route_query\<close> trims and lower-cases the
  extracted text and answers by the first rule that matches: \<^verbatim>\<open>hr\<close> when the text
  contains "hr" (whatever else it contains); otherwise \<^verbatim>\<open>marketing\<close> when it contains
  "marketing", "brand" or "campaign"; otherwise \<^verbatim>\<open>products\<close> when it contains
  "product"; otherwise the default \<^verbatim>\<open>hr\<close>.  Containment is stated outright: the
  keyword occurs between some prefix and some suffix of the text.
\<close>

theorem route_query_first_match_wins:
  assumes "run_agent sdk router query s = (Inr response, s1)"
    and "extract_text response = Inr t"
    and "route = py_lower (py_strip t)"
  shows "route_query sdk router query s =
     (Inr (if (\<exists>pre post. route = pre @ ''hr'' @ post) then ''hr''
           else if (\<exists>pre post. route = pre @ ''marketing'' @ post)
                 \<or> (\<exists>pre post. route = pre @ ''brand'' @ post)
                 \<or> (\<exists>pre post. route = pre @ ''campaign'' @ post) then ''marketing''
           else if (\<exists>pre post. route = pre @ ''product'' @ post) then ''products''
           else ''hr''), s1)"
  using assms unfolding py_in_iff [symmetric] by (simp add: route_query_def Let_def)

theorem route_query_first_match_wins_witness:
  "route_query sample_sdk
      (steady_agent (obj [(''text'', PyStr ''  Brand campaign for the HR product line '')]))
      ''Who handles this?'' 0
    = (Inr ''hr'', 1)"
proof -
  let ?reply = "obj [(''text'', PyStr ''  Brand campaign for the HR product line '')]"
  have h1: "run_agent sample_sdk (steady_agent ?reply) ''Who handles this?'' 0 = (Inr ?reply, 1)"
    by (simp add: run_agent_def sample_message steady_agent_def)
  have h2: "extract_text ?reply = Inr ''  Brand campaign for the HR product line ''"
    by (simp add: extract_text_def obj_def)
  have h3: "''brand campaign for the hr product line''
              = py_lower (py_strip ''  Brand campaign for the HR product line '')"
    by code_simp
  have "py_in ''hr'' ''brand campaign for the hr product line''" by simp
  then have "\<exists>pre post. ''brand campaign for the hr product line'' = pre @ ''hr'' @ post"
    by (simp only: py_in_iff)
  with route_query_first_match_wins [OF h1 h2 h3] show ?thesis by simp
qed

section \<open>Source extraction: the loops and the blocks\<close>

lemma append_records_eq:
  "append_records info cs sources
     = sources @ map info (filter (\<lambda>c. 1 < length (info c)) cs)"
  by (induction cs arbitrary: sources) (simp_all add: Let_def)

lemma iter_truthy: "py_iter v = Inr cs \<Longrightarrow> py_truthy v = (cs \<noteq> [])"
  by (cases v) auto

lemma citation_info_shape:
  "\<exists>rest. citation_info kb c = (''kb'', PyStr kb) # rest \<and> ''kb'' \<notin> fst ` set rest"
  by (simp add: citation_info_def Let_def)

lemma context_info_shape:
  "\<exists>rest. context_info kb c = (''kb'', PyStr kb) # rest \<and> ''kb'' \<notin> fst ` set rest"
  by (simp add: context_info_def Let_def)

lemma grounding_info_shape:
  "\<exists>rest. grounding_info kb c = (''kb'', PyStr kb) # rest \<and> ''kb'' \<notin> fst ` set rest"
  by (simp add: grounding_info_def Let_def)

lemma citation_info_nontrivial:
  "1 < length (citation_info kb c) \<longleftrightarrow>
     py_truthy (py_getattr_default c ''title'' PyNone)
     \<or> py_truthy (py_getattr_default c ''filepath'' PyNone)
     \<or> py_truthy (py_getattr_default c ''url'' PyNone)
     \<or> py_truthy (py_getattr_default c ''chunk_id'' PyNone)"
  by (simp add: citation_info_def Let_def)

lemma context_info_nontrivial:
  "1 < length (context_info kb c) \<longleftrightarrow>
     py_truthy (py_getattr_default c ''title'' PyNone)
     \<or> py_truthy (py_getattr_default c ''source'' PyNone)"
  by (simp add: context_info_def Let_def)

lemma grounding_info_nontrivial:
  "1 < length (grounding_info kb c) \<longleftrightarrow>
     py_truthy (py_getattr_default c ''title'' PyNone)
     \<or> py_truthy (py_getattr_default c ''filepath'' PyNone)"
  by (simp add: grounding_info_def Let_def)

lemma citations_block_records:
  assumes "py_getattr response ''citations'' = Some v" and "py_iter v = Inr cs"
  shows "citations_block kb response []
           = Inr (map (citation_info kb) (filter (\<lambda>c. 1 < length (citation_info kb c)) cs))"
  using assms iter_truthy [OF assms(2)]
  by (auto simp: citations_block_def py_hasattr_def py_getattr_default_def append_records_eq)

lemma context_block_records:
  assumes "py_getattr response ''context'' = Some v" and "py_iter v = Inr cs"
  shows "context_block kb response []
           = Inr (map (context_info kb) (filter (\<lambda>c. 1 < length (context_info kb c)) cs))"
  using assms iter_truthy [OF assms(2)]
  by (auto simp: context_block_def py_hasattr_def py_getattr_default_def append_records_eq)

lemma grounding_block_records:
  assumes "py_getattr response ''grounding_data'' = Some v" and "py_iter v = Inr cs"
  shows "grounding_block kb response []
           = Inr (map (grounding_info kb) (filter (\<lambda>c. 1 < length (grounding_info kb c)) cs))"
  using assms iter_truthy [OF assms(2)]
  by (auto simp: grounding_block_def py_hasattr_def py_getattr_default_def append_records_eq)

lemma later_blocks_skip:
  "sources \<noteq> [] \<Longrightarrow> context_block kb response sources = Inr sources"
  "sources \<noteq> [] \<Longrightarrow> grounding_block kb response sources = Inr sources"
  "sources \<noteq> [] \<Longrightarrow> fallback_block route kb sources = sources"
  by (simp_all add: context_block_def grounding_block_def fallback_block_def)

lemma fallback_nonempty: "fallback_block route kb [] \<noteq> []"
  by (simp add: fallback_block_def default_docs_def)

lemma falsy_blocks:
  assumes "\<not> py_truthy (py_getattr_default response ''citations'' PyNone)"
    and "\<not> py_truthy (py_getattr_default response ''context'' PyNone)"
    and "\<not> py_truthy (py_getattr_default response ''grounding_data'' PyNone)"
  shows "extract_sources route response = Inr (fallback_block route (kb_name_of route) [])"
  using assms
  by (simp add: extract_sources_def citations_block_def context_block_def grounding_block_def)

lemma run_single_query_result:
  assumes "route_query sdk router query s = (Inr route, s1)"
    and "map_of (specialists hr_agent marketing_agent products_agent) route = Some specialist"
    and "run_agent sdk specialist query s1 = (Inr response, s2)"
    and "extract_text response = Inr response_text"
    and "extract_sources route response = Inr sources"
  shows "run_single_query sdk router hr_agent marketing_agent products_agent query s
           = (Inr (route, response_text, sources), s2)"
  using assms by (simp add: run_single_query_def)

lemma kb_name_of_simps:
  "kb_name_of ''hr'' = ''kb1-hr''" "kb_name_of ''marketing'' = ''kb2-marketing''"
  "kb_name_of ''products'' = ''kb3-products''"
  by (simp_all add: kb_name_of_def kb_map_def)



section \<open>Source extraction: priority and fallback\<close>

text \<open>
  C2.  The source-extraction step of \<^verbatim>\<open>run_single_query\<close> consults citations, then
  context, then grounding data, then the static defaults, and stops at the first that
  yields a record: when the citations yield at least one record, the result is exactly
  those records; when they yield none and the context yields at least one, exactly the
  context records; when both yield none and the grounding data yield at least one,
  exactly those; when all three yield none, the static defaults.  What a source yields
  is what its block appends to the empty list.
\<close>

theorem extract_sources_priority:
  "(citations_block (kb_name_of route) response [] = Inr from_citations
      \<and> from_citations \<noteq> []
      \<longrightarrow> extract_sources route response = Inr from_citations)
   \<and> (citations_block (kb_name_of route) response [] = Inr []
      \<and> context_block (kb_name_of route) response [] = Inr from_context
      \<and> from_context \<noteq> []
      \<longrightarrow> extract_sources route response = Inr from_context)
   \<and> (citations_block (kb_name_of route) response [] = Inr []
      \<and> context_block (kb_name_of route) response [] = Inr []
      \<and> grounding_block (kb_name_of route) response [] = Inr from_grounding
      \<and> from_grounding \<noteq> []
      \<longrightarrow> extract_sources route response = Inr from_grounding)
   \<and> (citations_block (kb_name_of route) response [] = Inr []
      \<and> context_block (kb_name_of route) response [] = Inr []
      \<and> grounding_block (kb_name_of route) response [] = Inr []
      \<longrightarrow> extract_sources route response
            = Inr (fallback_block route (kb_name_of route) []))"
  apply (intro conjI impI)
  subgoal by (simp add: extract_sources_def later_blocks_skip)
  subgoal by (simp add: extract_sources_def later_blocks_skip)
  subgoal by (simp add: extract_sources_def later_blocks_skip)
  subgoal by (simp add: extract_sources_def)
  done

theorem extract_sources_priority_witness:
  "extract_sources ''marketing''
     (obj [(''citations'', PyList [obj [(''title'', PyNone)]]),
           (''context'', PyList [obj [(''source'', PyStr ''brand.pdf'')]]),
           (''grounding_data'', PyList [obj [(''title'', PyStr ''Other'')]])])
    = Inr [[(''kb'', PyStr ''kb2-marketing''), (''filepath'', PyStr ''brand.pdf'')]]"
proof -
  let ?r = "obj [(''citations'', PyList [obj [(''title'', PyNone)]]),
                 (''context'', PyList [obj [(''source'', PyStr ''brand.pdf'')]]),
                 (''grounding_data'', PyList [obj [(''title'', PyStr ''Other'')]])]"
  let ?recs = "[[(''kb'', PyStr ''kb2-marketing''), (''filepath'', PyStr ''brand.pdf'')]]"
  have h: "citations_block (kb_name_of ''marketing'') ?r [] = Inr []
      \<and> context_block (kb_name_of ''marketing'') ?r [] = Inr ?recs \<and> ?recs \<noteq> []"
    by (simp add: kb_name_of_simps citations_block_def context_block_def obj_def
        py_hasattr_def py_getattr_default_def citation_info_def context_info_def Let_def)
  from extract_sources_priority [of "''marketing''" ?r _ ?recs] h
  show ?thesis by blast
qed

text \<open>
  C3.  For every domain label and every response whose \<^verbatim>\<open>citations\<close>, \<^verbatim>\<open>context\<close> and
  \<^verbatim>\<open>grounding_data\<close> are absent or empty (each is missing or has a false truth value),
  the sources are the fixed list of the label's placeholder documents, which is never
  empty; for the label \<^verbatim>\<open>hr\<close> they are the three records Employee_Handbook.pdf,
  PTO_Policy_2024.docx and Benefits_Guide.pdf; and \<^verbatim>\<open>run_single_query\<close> returns that
  list as its third component.
\<close>

theorem extract_sources_static_fallback:
  assumes "\<forall>name \<in> {''citations'', ''context'', ''grounding_data''}.
             \<not> py_truthy (py_getattr_default response name PyNone)"
  shows "extract_sources route response = Inr (fallback_block route (kb_name_of route) [])
     \<and> fallback_block route (kb_name_of route) [] \<noteq> []
     \<and> extract_sources ''hr'' response =
         Inr [doc ''kb1-hr'' ''Employee_Handbook.pdf'' ''hr-policies/Employee_Handbook.pdf'',
              doc ''kb1-hr'' ''PTO_Policy_2024.docx'' ''hr-policies/PTO_Policy_2024.docx'',
              doc ''kb1-hr'' ''Benefits_Guide.pdf'' ''hr-policies/Benefits_Guide.pdf'']
     \<and> (route_query sdk router query s = (Inr route, s1)
        \<and> map_of (specialists hr_agent marketing_agent products_agent) route = Some specialist
        \<and> run_agent sdk specialist query s1 = (Inr response, s2)
        \<and> extract_text response = Inr response_text
        \<longrightarrow> run_single_query sdk router hr_agent marketing_agent products_agent query s
             = (Inr (route, response_text, fallback_block route (kb_name_of route) []), s2))"
proof -
  from assms have f: "\<not> py_truthy (py_getattr_default response ''citations'' PyNone)"
    "\<not> py_truthy (py_getattr_default response ''context'' PyNone)"
    "\<not> py_truthy (py_getattr_default response ''grounding_data'' PyNone)"
    by simp_all
  have a: "extract_sources r response = Inr (fallback_block r (kb_name_of r) [])" for r
    by (rule falsy_blocks [OF f])
  have b: "fallback_block ''hr'' (kb_name_of ''hr'') [] =
         [doc ''kb1-hr'' ''Employee_Handbook.pdf'' ''hr-policies/Employee_Handbook.pdf'',
          doc ''kb1-hr'' ''PTO_Policy_2024.docx'' ''hr-policies/PTO_Policy_2024.docx'',
          doc ''kb1-hr'' ''Benefits_Guide.pdf'' ''hr-policies/Benefits_Guide.pdf'']"
    by (simp add: fallback_block_def default_docs_def kb_name_of_simps)
  have c: "route_query sdk router query s = (Inr route, s1)
        \<and> map_of (specialists hr_agent marketing_agent products_agent) route = Some specialist
        \<and> run_agent sdk specialist query s1 = (Inr response, s2)
        \<and> extract_text response = Inr response_text
        \<longrightarrow> run_single_query sdk router hr_agent marketing_agent products_agent query s
             = (Inr (route, response_text, fallback_block route (kb_name_of route) []), s2)"
    by (simp add: run_single_query_def a)
  from a [of route] a [of "''hr''"] b fallback_nonempty [of route "kb_name_of route"] c
  show ?thesis by simp
qed

theorem extract_sources_static_fallback_witness:
  "run_single_query sample_sdk
      (steady_agent (obj [(''text'', PyStr ''HR'')]))
      (steady_agent (obj [(''text'', PyStr ''You get 20 days.''), (''citations'', PyList [])]))
      rejecting_agent rejecting_agent
      ''How many vacation days do I get?'' 0
    = (Inr (''hr'', ''You get 20 days.'',
            [[(''kb'', PyStr ''kb1-hr''), (''title'', PyStr ''Employee_Handbook.pdf''),
              (''filepath'', PyStr ''hr-policies/Employee_Handbook.pdf'')],
             [(''kb'', PyStr ''kb1-hr''), (''title'', PyStr ''PTO_Policy_2024.docx''),
              (''filepath'', PyStr ''hr-policies/PTO_Policy_2024.docx'')],
             [(''kb'', PyStr ''kb1-hr''), (''title'', PyStr ''Benefits_Guide.pdf''),
              (''filepath'', PyStr ''hr-policies/Benefits_Guide.pdf'')]]), 2)"
proof -
  let ?router = "steady_agent (obj [(''text'', PyStr ''HR'')])"
  let ?reply = "obj [(''text'', PyStr ''You get 20 days.''), (''citations'', PyList [])]"
  let ?hr = "steady_agent ?reply"
  let ?q = "''How many vacation days do I get?''"
  have falsy: "\<forall>name \<in> {''citations'', ''context'', ''grounding_data''}.
             \<not> py_truthy (py_getattr_default ?reply name PyNone)"
    by (simp add: obj_def py_getattr_default_def)
  have n: "py_lower (py_strip ''HR'') = ''hr''" by code_simp
  have r: "route_query sample_sdk ?router ?q 0 = (Inr ''hr'', 1)"
    by (simp add: route_query_def run_agent_def sample_message steady_agent_def
        extract_text_def obj_def n)
  have sp: "map_of (specialists ?hr rejecting_agent rejecting_agent) ''hr'' = Some ?hr"
    by (simp add: specialists_def)
  have run: "run_agent sample_sdk ?hr ?q 1 = (Inr ?reply, 2)"
    by (simp add: run_agent_def sample_message steady_agent_def)
  have tx: "extract_text ?reply = Inr ''You get 20 days.''"
    by (simp add: extract_text_def obj_def)
  from extract_sources_static_fallback [OF falsy, of "''hr''" sample_sdk ?router ?q 0 1
      ?hr rejecting_agent rejecting_agent ?hr 2 "''You get 20 days.''"] r sp run tx
  have "run_single_query sample_sdk ?router ?hr rejecting_agent rejecting_agent ?q 0
      = (Inr (''hr'', ''You get 20 days.'', fallback_block ''hr'' (kb_name_of ''hr'') []), 2)"
    by blast
  then show ?thesis
    by (simp add: fallback_block_def default_docs_def kb_name_of_simps doc_def)
qed

section \<open>Source extraction: the records\<close>

lemma info_has_other_field:
  assumes "info = (''kb'', PyStr kb) # rest" and "1 < length info"
    and "''kb'' \<notin> fst ` set rest"
  shows "dict_get info ''kb'' = Some (PyStr kb) \<and> (\<exists>k v. (k, v) \<in> set info \<and> k \<noteq> ''kb'')"
proof -
  from assms(1,2) obtain k v rest' where r: "rest = (k, v) # rest'"
    by (cases rest) auto
  with assms(3) have "k \<noteq> ''kb''" by auto
  with r assms(1) show ?thesis by (auto simp: dict_get_def)
qed

lemma block_records_ok:
  assumes "\<And>c. \<exists>rest. info c = (''kb'', PyStr kb) # rest \<and> ''kb'' \<notin> fst ` set rest"
    and "\<forall>r \<in> set sources. dict_get r ''kb'' = Some (PyStr kb) \<and> (\<exists>k v. (k, v) \<in> set r \<and> k \<noteq> ''kb'')"
  shows "\<forall>r \<in> set (append_records info cs sources).
           dict_get r ''kb'' = Some (PyStr kb) \<and> (\<exists>k v. (k, v) \<in> set r \<and> k \<noteq> ''kb'')"
proof -
  have "dict_get (info c) ''kb'' = Some (PyStr kb) \<and> (\<exists>k v. (k, v) \<in> set (info c) \<and> k \<noteq> ''kb'')"
    if "1 < length (info c)" for c
  proof -
    from assms(1) [of c] obtain rest where i: "info c = (''kb'', PyStr kb) # rest"
      and n: "''kb'' \<notin> fst ` set rest" by blast
    show ?thesis by (rule info_has_other_field [OF i that n])
  qed
  with assms(2) show ?thesis unfolding append_records_eq by auto
qed

lemma fallback_records_ok:
  "\<forall>r \<in> set (fallback_block route kb []).
     dict_get r ''kb'' = Some (PyStr kb) \<and> (\<exists>k v. (k, v) \<in> set r \<and> k \<noteq> ''kb'')"
  by (auto simp: fallback_block_def default_docs_def doc_def dict_get_def)

lemma citations_block_ok:
  assumes "citations_block kb response [] = Inr sources"
  shows "\<forall>r \<in> set sources.
     dict_get r ''kb'' = Some (PyStr kb) \<and> (\<exists>k v. (k, v) \<in> set r \<and> k \<noteq> ''kb'')"
  using assms block_records_ok [of "citation_info kb" kb "[]", OF citation_info_shape]
  by (auto simp: citations_block_def split: if_splits sum.splits)

lemma context_block_ok:
  assumes "context_block kb response [] = Inr sources"
  shows "\<forall>r \<in> set sources.
     dict_get r ''kb'' = Some (PyStr kb) \<and> (\<exists>k v. (k, v) \<in> set r \<and> k \<noteq> ''kb'')"
  using assms block_records_ok [of "context_info kb" kb "[]", OF context_info_shape]
  by (auto simp: context_block_def split: if_splits sum.splits)

lemma grounding_block_ok:
  assumes "grounding_block kb response [] = Inr sources"
  shows "\<forall>r \<in> set sources.
     dict_get r ''kb'' = Some (PyStr kb) \<and> (\<exists>k v. (k, v) \<in> set r \<and> k \<noteq> ''kb'')"
  using assms block_records_ok [of "grounding_info kb" kb "[]", OF grounding_info_shape]
  by (auto simp: grounding_block_def split: if_splits sum.splits)

lemma extract_sources_cases:
  assumes "extract_sources route response = Inr sources"
  shows "citations_block (kb_name_of route) response [] = Inr sources
       \<or> context_block (kb_name_of route) response [] = Inr sources
       \<or> grounding_block (kb_name_of route) response [] = Inr sources
       \<or> sources = fallback_block route (kb_name_of route) []"
proof -
  let ?kb = "kb_name_of route"
  from assms obtain s1 where s1: "citations_block ?kb response [] = Inr s1"
    by (auto simp: extract_sources_def Let_def split: sum.splits)
  show ?thesis
  proof (cases "s1 = []")
    case False
    with s1 assms show ?thesis by (simp add: extract_sources_def Let_def later_blocks_skip)
  next
    case True
    with s1 assms obtain s2 where s2: "context_block ?kb response [] = Inr s2"
      by (auto simp: extract_sources_def Let_def split: sum.splits)
    show ?thesis
    proof (cases "s2 = []")
      case False
      with s1 s2 True assms show ?thesis by (simp add: extract_sources_def Let_def later_blocks_skip)
    next
      case e2: True
      with s1 s2 True assms obtain s3 where s3: "grounding_block ?kb response [] = Inr s3"
        by (auto simp: extract_sources_def Let_def split: sum.splits)
      show ?thesis
      proof (cases "s3 = []")
        case False
        with s1 s2 s3 True e2 assms show ?thesis
          by (simp add: extract_sources_def Let_def later_blocks_skip)
      next
        case e3: True
        with s1 s2 s3 True e2 assms show ?thesis by (simp add: extract_sources_def Let_def)
      qed
    qed
  qed
qed

lemma extract_sources_records_ok:
  assumes "extract_sources route response = Inr sources"
  shows "\<forall>r \<in> set sources.
     dict_get r ''kb'' = Some (PyStr (kb_name_of route))
     \<and> (\<exists>k v. (k, v) \<in> set r \<and> k \<noteq> ''kb'')"
  using extract_sources_cases [OF assms] citations_block_ok context_block_ok
    grounding_block_ok fallback_records_ok
  by metis

lemma null_entry_skipped:
  assumes "\<not> 1 < length (info c)"
  shows "append_records info (pre @ c # post) sources = append_records info (pre @ post) sources"
  using assms by (simp add: append_records_eq)

text \<open>
  C4.  Every source record that the extraction step of \<^verbatim>\<open>run_single_query\<close> emits has
  the field \<^verbatim>\<open>kb\<close> and at least one field besides it.  An entry of \<^verbatim>\<open>citations\<close> whose
  \<^verbatim>\<open>title\<close>, \<^verbatim>\<open>filepath\<close>, \<^verbatim>\<open>url\<close> and \<^verbatim>\<open>chunk_id\<close> are all null (or missing)
  contributes no record: the loop yields what it yields without that entry.  Likewise an
  entry of \<^verbatim>\<open>context\<close> with null \<^verbatim>\<open>title\<close> and \<^verbatim>\<open>source\<close>, and an entry of
  \<^verbatim>\<open>grounding_data\<close> with null \<^verbatim>\<open>title\<close> and \<^verbatim>\<open>filepath\<close>.
\<close>

theorem emitted_records_have_a_field_besides_kb:
  "(extract_sources route response = Inr sources \<longrightarrow>
      (\<forall>r \<in> set sources. dict_get r ''kb'' \<noteq> None \<and> (\<exists>k v. (k, v) \<in> set r \<and> k \<noteq> ''kb'')))
   \<and> ((\<forall>name \<in> {''title'', ''filepath'', ''url'', ''chunk_id''}.
          py_getattr_default c name PyNone = PyNone) \<longrightarrow>
        append_records (citation_info kb) (pre @ c # post) acc
          = append_records (citation_info kb) (pre @ post) acc)
   \<and> ((\<forall>name \<in> {''title'', ''source''}. py_getattr_default c name PyNone = PyNone) \<longrightarrow>
        append_records (context_info kb) (pre @ c # post) acc
          = append_records (context_info kb) (pre @ post) acc)
   \<and> ((\<forall>name \<in> {''title'', ''filepath''}. py_getattr_default c name PyNone = PyNone) \<longrightarrow>
        append_records (grounding_info kb) (pre @ c # post) acc
          = append_records (grounding_info kb) (pre @ post) acc)"
  apply (intro conjI impI)
  subgoal using extract_sources_records_ok [of route response sources] by auto
  subgoal using citation_info_nontrivial [of kb c] by (intro null_entry_skipped) simp
  subgoal using context_info_nontrivial [of kb c] by (intro null_entry_skipped) simp
  subgoal using grounding_info_nontrivial [of kb c] by (intro null_entry_skipped) simp
  done

theorem emitted_records_have_a_field_besides_kb_witness:
  "extract_sources ''hr''
      (obj [(''citations'',
             PyList [obj [(''title'', PyNone), (''filepath'', PyNone), (''url'', PyNone),
                          (''chunk_id'', PyNone)],
                     obj [(''title'', PyStr ''PTO.docx'')]])])
     = Inr [[(''kb'', PyStr ''kb1-hr''), (''title'', PyStr ''PTO.docx'')]]
   \<and> dict_get [(''kb'', PyStr ''kb1-hr''), (''title'', PyStr ''PTO.docx'')] ''kb'' \<noteq> None
   \<and> (\<exists>k v. (k, v) \<in> set [(''kb'', PyStr ''kb1-hr''), (''title'', PyStr ''PTO.docx'')]
        \<and> k \<noteq> ''kb'')
   \<and> append_records (citation_info ''kb1-hr'')
        ([] @ obj [(''title'', PyNone), (''filepath'', PyNone), (''url'', PyNone),
                   (''chunk_id'', PyNone)]
            # [obj [(''title'', PyStr ''PTO.docx'')]]) []
      = append_records (citation_info ''kb1-hr'') ([] @ [obj [(''title'', PyStr ''PTO.docx'')]]) []"
proof -
  let ?null = "obj [(''title'', PyNone), (''filepath'', PyNone), (''url'', PyNone),
                    (''chunk_id'', PyNone)]"
  let ?good = "obj [(''title'', PyStr ''PTO.docx'')]"
  let ?r = "obj [(''citations'', PyList [?null, ?good])]"
  let ?rec = "[(''kb'', PyStr ''kb1-hr''), (''title'', PyStr ''PTO.docx'')]"
  have e: "extract_sources ''hr'' ?r = Inr [?rec]"
    by (simp add: extract_sources_def kb_name_of_simps citations_block_def context_block_def
        grounding_block_def fallback_block_def obj_def py_hasattr_def py_getattr_default_def
        citation_info_def Let_def)
  have n: "\<forall>name \<in> {''title'', ''filepath'', ''url'', ''chunk_id''}.
            py_getattr_default ?null name PyNone = PyNone"
    by (simp add: obj_def py_getattr_default_def)
  from emitted_records_have_a_field_besides_kb
         [of "''hr''" ?r "[?rec]" ?null "''kb1-hr''" "[]" "[?good]" "[]"] e n
  show ?thesis by simp
qed

text \<open>
  C6.  The knowledge-base identifier of a domain label is given by the fixed table
  hr to kb1-hr, marketing to kb2-marketing, products to kb3-products, and is "unknown"
  for every other label.  Every record built from the citations carries under \<^verbatim>\<open>kb\<close>
  the identifier of the label, and so does every record of the result.
\<close>

theorem kb_name_table_and_record_kb:
  "kb_name_of ''hr'' = ''kb1-hr''
   \<and> kb_name_of ''marketing'' = ''kb2-marketing''
   \<and> kb_name_of ''products'' = ''kb3-products''
   \<and> (route \<notin> {''hr'', ''marketing'', ''products''} \<longrightarrow> kb_name_of route = ''unknown'')
   \<and> (\<forall>r \<in> set (append_records (citation_info (kb_name_of route)) cs []).
         dict_get r ''kb'' = Some (PyStr (kb_name_of route)))
   \<and> (extract_sources route response = Inr sources \<longrightarrow>
        (\<forall>r \<in> set sources. dict_get r ''kb'' = Some (PyStr (kb_name_of route))))"
  apply (intro conjI impI)
  subgoal by (simp add: kb_name_of_simps)
  subgoal by (simp add: kb_name_of_simps)
  subgoal by (simp add: kb_name_of_simps)
  subgoal by (simp add: kb_name_of_def kb_map_def)
  subgoal
    using block_records_ok [of "citation_info (kb_name_of route)" "kb_name_of route" "[]" cs,
        OF citation_info_shape]
    by simp
  subgoal using extract_sources_records_ok [of route response sources] by auto
  done

theorem kb_name_table_and_record_kb_witness:
  "kb_name_of ''intranet'' = ''unknown''
   \<and> extract_sources ''intranet''
        (obj [(''citations'', PyList [obj [(''url'', PyStr ''https://wiki/page'')]])])
      = Inr [[(''kb'', PyStr ''unknown''), (''url'', PyStr ''https://wiki/page'')]]
   \<and> dict_get [(''kb'', PyStr ''unknown''), (''url'', PyStr ''https://wiki/page'')] ''kb''
      = Some (PyStr ''unknown'')"
proof -
  let ?r = "obj [(''citations'', PyList [obj [(''url'', PyStr ''https://wiki/page'')]])]"
  let ?rec = "[(''kb'', PyStr ''unknown''), (''url'', PyStr ''https://wiki/page'')]"
  have k: "''intranet'' \<notin> {''hr'', ''marketing'', ''products''}" by simp
  have u: "kb_name_of ''intranet'' = ''unknown''"
    using kb_name_table_and_record_kb [of "''intranet''" "[]" ?r "[?rec]"] k by blast
  have e: "extract_sources ''intranet'' ?r = Inr [?rec]"
    by (simp add: extract_sources_def u citations_block_def context_block_def
        grounding_block_def fallback_block_def obj_def py_hasattr_def py_getattr_default_def
        citation_info_def Let_def)
  from kb_name_table_and_record_kb [of "''intranet''" "[]" ?r "[?rec]"] e u
  show ?thesis by simp
qed

lemma citations_win:
  "citations_block (kb_name_of route) response [] = Inr recs \<Longrightarrow> recs \<noteq> []
     \<Longrightarrow> extract_sources route response = Inr recs"
  by (simp add: extract_sources_def Let_def later_blocks_skip)

lemma context_wins:
  "citations_block (kb_name_of route) response [] = Inr [] \<Longrightarrow>
   context_block (kb_name_of route) response [] = Inr recs \<Longrightarrow> recs \<noteq> []
     \<Longrightarrow> extract_sources route response = Inr recs"
  by (simp add: extract_sources_def Let_def later_blocks_skip)

lemma grounding_wins:
  "citations_block (kb_name_of route) response [] = Inr [] \<Longrightarrow>
   context_block (kb_name_of route) response [] = Inr [] \<Longrightarrow>
   grounding_block (kb_name_of route) response [] = Inr recs \<Longrightarrow> recs \<noteq> []
     \<Longrightarrow> extract_sources route response = Inr recs"
  by (simp add: extract_sources_def Let_def later_blocks_skip)

lemma citation_info_copies_title:
  "py_getattr c ''title'' = Some v \<Longrightarrow> py_truthy v
     \<Longrightarrow> dict_get (citation_info kb c) ''title'' = Some v"
  by (simp add: citation_info_def Let_def dict_get_def py_getattr_default_def)

lemma citation_info_copies_filepath:
  "py_getattr c ''filepath'' = Some v \<Longrightarrow> py_truthy v
     \<Longrightarrow> dict_get (citation_info kb c) ''filepath'' = Some v"
  by (simp add: citation_info_def Let_def dict_get_def py_getattr_default_def)

lemma citation_info_copies_url:
  "py_getattr c ''url'' = Some v \<Longrightarrow> py_truthy v
     \<Longrightarrow> dict_get (citation_info kb c) ''url'' = Some v"
  by (simp add: citation_info_def Let_def dict_get_def py_getattr_default_def)

lemma citation_info_copies_chunk_id:
  "py_getattr c ''chunk_id'' = Some v \<Longrightarrow> py_truthy v
     \<Longrightarrow> dict_get (citation_info kb c) ''chunk_id'' = Some v"
  by (simp add: citation_info_def Let_def dict_get_def py_getattr_default_def)

lemma citation_info_copies:
  assumes "name \<in> {''title'', ''filepath'', ''url'', ''chunk_id''}"
    and "py_getattr c name = Some v" and "py_truthy v"
  shows "dict_get (citation_info kb c) name = Some v"
proof -
  from assms(1) consider "name = ''title''" | "name = ''filepath''" | "name = ''url''"
    | "name = ''chunk_id''" by blast
  then show ?thesis
  proof cases
    case 1 with assms(2,3) show ?thesis by (simp add: citation_info_copies_title)
  next
    case 2 with assms(2,3) show ?thesis by (simp add: citation_info_copies_filepath)
  next
    case 3 with assms(2,3) show ?thesis by (simp add: citation_info_copies_url)
  next
    case 4 with assms(2,3) show ?thesis by (simp add: citation_info_copies_chunk_id)
  qed
qed

lemma citation_info_truthy_nontrivial:
  assumes "name \<in> {''title'', ''filepath'', ''url'', ''chunk_id''}"
    and "py_getattr c name = Some v" and "py_truthy v"
  shows "1 < length (citation_info kb c)"
proof -
  from assms(2,3) have "py_truthy (py_getattr_default c name PyNone)"
    by (simp add: py_getattr_default_def)
  with assms(1) show ?thesis unfolding citation_info_nontrivial by blast
qed

lemma citation_info_kb: "dict_get (citation_info kb c) ''kb'' = Some (PyStr kb)"
  using citation_info_shape [of kb c] by (auto simp: dict_get_def)

section \<open>Source extraction: the fields of a citation\<close>

text \<open>
  C5, as the claim states it, fails: the loop copies a field under a truth test
  (\<^verbatim>\<open>if getattr(c, "title", None):\<close>), not under a test against null.  A citation
  whose \<^verbatim>\<open>title\<close> is the empty string, present and not null, yields a record without
  \<^verbatim>\<open>title\<close>.
\<close>

theorem empty_title_not_copied:
  "py_getattr (obj [(''title'', PyStr ''''), (''url'', PyStr ''https://wiki/pto'')]) ''title''
     = Some (PyStr '''')
   \<and> PyStr '''' \<noteq> PyNone
   \<and> extract_sources ''hr''
        (obj [(''citations'',
               PyList [obj [(''title'', PyStr ''''), (''url'', PyStr ''https://wiki/pto'')]])])
      = Inr [[(''kb'', PyStr ''kb1-hr''), (''url'', PyStr ''https://wiki/pto'')]]
   \<and> dict_get [(''kb'', PyStr ''kb1-hr''), (''url'', PyStr ''https://wiki/pto'')] ''title''
      = None"
  by (simp add: extract_sources_def kb_name_of_simps citations_block_def context_block_def
      grounding_block_def fallback_block_def obj_def py_hasattr_def py_getattr_default_def
      citation_info_def Let_def dict_get_def)

text \<open>
  C5, amended.  For every citations entry, each of the fields \<^verbatim>\<open>title\<close>,
  \<^verbatim>\<open>filepath\<close>, \<^verbatim>\<open>url\<close> and \<^verbatim>\<open>chunk_id\<close> that is present with a true truth value
  (not null, and not an empty string) is copied into the entry's record alongside
  \<^verbatim>\<open>kb\<close>, and that record is among the sources returned.
\<close>

theorem truthy_citation_fields_copied:
  assumes "name \<in> {''title'', ''filepath'', ''url'', ''chunk_id''}"
    and "py_getattr c name = Some v"
    and "py_truthy v"
  shows "dict_get (citation_info kb c) name = Some v
     \<and> dict_get (citation_info kb c) ''kb'' = Some (PyStr kb)
     \<and> (py_getattr response ''citations'' = Some cits \<and> py_iter cits = Inr cs \<and> c \<in> set cs
        \<longrightarrow> (\<exists>sources. extract_sources route response = Inr sources
               \<and> citation_info (kb_name_of route) c \<in> set sources))"
proof -
  have "\<exists>sources. extract_sources route response = Inr sources
               \<and> citation_info (kb_name_of route) c \<in> set sources"
    if g: "py_getattr response ''citations'' = Some cits" and i: "py_iter cits = Inr cs"
      and m: "c \<in> set cs"
  proof -
    let ?kb = "kb_name_of route"
    let ?recs = "map (citation_info ?kb) (filter (\<lambda>c. 1 < length (citation_info ?kb c)) cs)"
    have b: "citations_block ?kb response [] = Inr ?recs"
      by (rule citations_block_records [OF g i])
    have "c \<in> set (filter (\<lambda>c. 1 < length (citation_info ?kb c)) cs)"
      using m citation_info_truthy_nontrivial [OF assms, of ?kb] by simp
    then have mem: "citation_info ?kb c \<in> set ?recs" unfolding set_map by (rule imageI)
    then have ne: "?recs \<noteq> []" by (metis empty_iff empty_set)
    from citations_win [OF b ne] mem show ?thesis by blast
  qed
  with citation_info_copies [OF assms] citation_info_kb show ?thesis by blast
qed

theorem truthy_citation_fields_copied_witness:
  "dict_get (citation_info ''kb1-hr'' (obj [(''title'', PyStr ''''), (''chunk_id'', PyInt 7)]))
      ''chunk_id'' = Some (PyInt 7)
   \<and> citation_info ''kb1-hr'' (obj [(''title'', PyStr ''''), (''chunk_id'', PyInt 7)])
      = [(''kb'', PyStr ''kb1-hr''), (''chunk_id'', PyInt 7)]"
proof -
  let ?c = "obj [(''title'', PyStr ''''), (''chunk_id'', PyInt 7)]"
  have h1: "''chunk_id'' \<in> {''title'', ''filepath'', ''url'', ''chunk_id''}" by simp
  have h2: "py_getattr ?c ''chunk_id'' = Some (PyInt 7)" by (simp add: obj_def)
  have h3: "py_truthy (PyInt 7)" by simp
  from truthy_citation_fields_copied [OF h1 h2 h3, of "''kb1-hr''"]
  have "dict_get (citation_info ''kb1-hr'' ?c) ''chunk_id'' = Some (PyInt 7)" by blast
  then show ?thesis
    by (simp add: citation_info_def Let_def obj_def py_getattr_default_def)
qed

text \<open>
  C10.  When the sources come from the \<^verbatim>\<open>citations\<close> sequence, the list returned holds
  exactly one record per non-trivial entry (an entry with at least one field that is
  copied), in the order of the entries: it is the list of the entries' records, taken
  over the non-trivial entries in sequence order.  Likewise when the sources come from
  \<^verbatim>\<open>context\<close> (the citations having yielded nothing) and from \<^verbatim>\<open>grounding_data\<close>
  (citations and context having yielded nothing).
\<close>

theorem records_follow_entries_in_order:
  "(py_getattr response ''citations'' = Some v \<and> py_iter v = Inr entries
      \<and> recs = map (citation_info (kb_name_of route))
                 (filter (\<lambda>c. py_truthy (py_getattr_default c ''title'' PyNone)
                             \<or> py_truthy (py_getattr_default c ''filepath'' PyNone)
                             \<or> py_truthy (py_getattr_default c ''url'' PyNone)
                             \<or> py_truthy (py_getattr_default c ''chunk_id'' PyNone)) entries)
      \<and> recs \<noteq> []
      \<longrightarrow> extract_sources route response = Inr recs)
   \<and> (citations_block (kb_name_of route) response [] = Inr []
      \<and> py_getattr response ''context'' = Some v \<and> py_iter v = Inr entries
      \<and> recs = map (context_info (kb_name_of route))
                 (filter (\<lambda>c. py_truthy (py_getattr_default c ''title'' PyNone)
                             \<or> py_truthy (py_getattr_default c ''source'' PyNone)) entries)
      \<and> recs \<noteq> []
      \<longrightarrow> extract_sources route response = Inr recs)
   \<and> (citations_block (kb_name_of route) response [] = Inr []
      \<and> context_block (kb_name_of route) response [] = Inr []
      \<and> py_getattr response ''grounding_data'' = Some v \<and> py_iter v = Inr entries
      \<and> recs = map (grounding_info (kb_name_of route))
                 (filter (\<lambda>c. py_truthy (py_getattr_default c ''title'' PyNone)
                             \<or> py_truthy (py_getattr_default c ''filepath'' PyNone)) entries)
      \<and> recs \<noteq> []
      \<longrightarrow> extract_sources route response = Inr recs)"
proof (intro conjI impI)
  let ?kb = "kb_name_of route"
  {
    assume a: "py_getattr response ''citations'' = Some v \<and> py_iter v = Inr entries
      \<and> recs = map (citation_info ?kb)
                 (filter (\<lambda>c. py_truthy (py_getattr_default c ''title'' PyNone)
                             \<or> py_truthy (py_getattr_default c ''filepath'' PyNone)
                             \<or> py_truthy (py_getattr_default c ''url'' PyNone)
                             \<or> py_truthy (py_getattr_default c ''chunk_id'' PyNone)) entries)
      \<and> recs \<noteq> []"
    then have "citations_block ?kb response [] = Inr recs"
      using citations_block_records [of response v entries ?kb]
      by (simp only: citation_info_nontrivial)
    moreover from a have "recs \<noteq> []" by blast
    ultimately show "extract_sources route response = Inr recs"
      by (rule citations_win)
  }
  {
    assume a: "citations_block ?kb response [] = Inr []
      \<and> py_getattr response ''context'' = Some v \<and> py_iter v = Inr entries
      \<and> recs = map (context_info ?kb)
                 (filter (\<lambda>c. py_truthy (py_getattr_default c ''title'' PyNone)
                             \<or> py_truthy (py_getattr_default c ''source'' PyNone)) entries)
      \<and> recs \<noteq> []"
    then have "context_block ?kb response [] = Inr recs"
      using context_block_records [of response v entries ?kb]
      by (simp only: context_info_nontrivial)
    moreover from a have "recs \<noteq> []" by blast
    moreover from a have "citations_block ?kb response [] = Inr []" by blast
    ultimately show "extract_sources route response = Inr recs"
      using context_wins by blast
  }
  {
    assume a: "citations_block ?kb response [] = Inr []
      \<and> context_block ?kb response [] = Inr []
      \<and> py_getattr response ''grounding_data'' = Some v \<and> py_iter v = Inr entries
      \<and> recs = map (grounding_info ?kb)
                 (filter (\<lambda>c. py_truthy (py_getattr_default c ''title'' PyNone)
                             \<or> py_truthy (py_getattr_default c ''filepath'' PyNone)) entries)
      \<and> recs \<noteq> []"
    then have "grounding_block ?kb response [] = Inr recs"
      using grounding_block_records [of response v entries ?kb]
      by (simp only: grounding_info_nontrivial)
    moreover from a have "recs \<noteq> []" by blast
    moreover from a have "citations_block ?kb response [] = Inr []" by blast
    moreover from a have "context_block ?kb response [] = Inr []" by blast
    ultimately show "extract_sources route response = Inr recs"
      using grounding_wins by blast
  }
qed


theorem records_follow_entries_in_order_witness:
  "extract_sources ''products''
      (obj [(''citations'',
             PyList [obj [(''title'', PyStr ''Catalog.xlsx'')],
                     obj [(''title'', PyNone)],
                     obj [(''url'', PyStr ''https://shop/specs'')]])])
     = Inr [[(''kb'', PyStr ''kb3-products''), (''title'', PyStr ''Catalog.xlsx'')],
            [(''kb'', PyStr ''kb3-products''), (''url'', PyStr ''https://shop/specs'')]]"
proof -
  let ?es = "[obj [(''title'', PyStr ''Catalog.xlsx'')],
              obj [(''title'', PyNone)],
              obj [(''url'', PyStr ''https://shop/specs'')]]"
  let ?r = "obj [(''citations'', PyList ?es)]"
  let ?recs = "[[(''kb'', PyStr ''kb3-products''), (''title'', PyStr ''Catalog.xlsx'')],
                [(''kb'', PyStr ''kb3-products''), (''url'', PyStr ''https://shop/specs'')]]"
  have h: "py_getattr ?r ''citations'' = Some (PyList ?es) \<and> py_iter (PyList ?es) = Inr ?es
      \<and> ?recs = map (citation_info (kb_name_of ''products''))
                 (filter (\<lambda>c. py_truthy (py_getattr_default c ''title'' PyNone)
                             \<or> py_truthy (py_getattr_default c ''filepath'' PyNone)
                             \<or> py_truthy (py_getattr_default c ''url'' PyNone)
                             \<or> py_truthy (py_getattr_default c ''chunk_id'' PyNone)) ?es)
      \<and> ?recs \<noteq> []"
    by (simp add: obj_def py_getattr_default_def citation_info_def Let_def kb_name_of_simps)
  from records_follow_entries_in_order [of ?r "PyList ?es" ?es ?recs "''products''"] h
  show ?thesis by blast
qed

end
